theory Spec2Isabelle
  imports Main
begin

section \<open>JavaScript values\<close>

text \<open>
  The machine of \<^verbatim>\<open>src/machines/commerce-machine.ts\<close> stores whatever the fetch service
  resolves to in \<^verbatim>\<open>context.pricingData\<close>; TypeScript's types are erased at run time, so
  the payload is an arbitrary JavaScript value as \<^verbatim>\<open>JSON.parse\<close> builds it, or
  \<^verbatim>\<open>undefined\<close> (the service's type is \<^verbatim>\<open>Promise<PricingData | undefined>\<close>).
  Numbers are integers here: the code never computes with one, it only looks at the type
  of a value and compares values for identity.
\<close>

datatype json =
    JUndefined
  | JNull
  | JBool bool
  | JNum int
  | JStr string
  | JArr "json list"
  | JObj "(string \<times> json) list"

text \<open>
  \<^verbatim>\<open>v?.k\<close>: the property \<^verbatim>\<open>k\<close> of \<^verbatim>\<open>v\<close>, and \<^verbatim>\<open>undefined\<close> when \<^verbatim>\<open>v\<close> is
  \<^verbatim>\<open>null\<close> or \<^verbatim>\<open>undefined\<close>. The keys the machine reads (\<^verbatim>\<open>plans\<close>,
  \<^verbatim>\<open>available_coupons\<close>, \<^verbatim>\<open>applied_coupon\<close>, \<^verbatim>\<open>default\<close>, \<^verbatim>\<open>ppp\<close>,
  \<^verbatim>\<open>coupon_code\<close>) are no members of the prototypes of strings, numbers, booleans or
  arrays, so on those the read is \<^verbatim>\<open>undefined\<close> too. Where the code reads a property
  without \<^verbatim>\<open>?.\<close> the value is an object at that point (\<^verbatim>\<open>appliedCoupon.coupon_code\<close>
  comes after \<^verbatim>\<open>isEmpty(appliedCoupon)\<close> was false), so no read raises.
\<close>

fun readProp :: "json \<Rightarrow> string \<Rightarrow> json" where
  "readProp (JObj kvs) k = (case map_of kvs k of Some v \<Rightarrow> v | None \<Rightarrow> JUndefined)"
| "readProp _ k = JUndefined"

text \<open>
  \<^verbatim>\<open>a === b\<close>. Primitives are compared by type and value. Objects and arrays are compared
  by reference; two values read from different places of one parsed payload, or from a
  payload and the context, are never the same reference.
\<close>

fun strictEq :: "json \<Rightarrow> json \<Rightarrow> bool" where
  "strictEq (JArr _) _ = False"
| "strictEq (JObj _) _ = False"
| "strictEq _ (JArr _) = False"
| "strictEq _ (JObj _) = False"
| "strictEq a b = (a = b)"

text \<open>
  lodash's \<^verbatim>\<open>isEmpty\<close>: \<^verbatim>\<open>null\<close> and \<^verbatim>\<open>undefined\<close> are empty, a string or an array
  is empty when its length is 0, an object when it has no own enumerable key, and every
  number and boolean is empty (it has no enumerable key).
\<close>

fun isEmpty :: "json \<Rightarrow> bool" where
  "isEmpty JUndefined = True"
| "isEmpty JNull = True"
| "isEmpty (JBool _) = True"
| "isEmpty (JNum _) = True"
| "isEmpty (JStr s) = (s = [])"
| "isEmpty (JArr xs) = (xs = [])"
| "isEmpty (JObj kvs) = (kvs = [])"

section \<open>Context and events\<close>

datatype CouponType = PPP | DEFAULT

text \<open>
  \<^verbatim>\<open>couponCode\<close> is declared a string; the default-coupon branch stores
  \<^verbatim>\<open>appliedCoupon.coupon_code\<close> unchecked, so the field holds a JavaScript value.
\<close>

record CouponToApply =
  couponCode :: json
  couponType :: CouponType

record CommerceMachineContext =
  pricingData :: json
  priceId :: "string option"
  quantity :: int
  couponToApply :: "CouponToApply option"

text \<open>
  The events of \<^verbatim>\<open>CommerceMachineEvent\<close>, with the two events the invoked service
  produces (\<^verbatim>\<open>done.invoke.fetchPricingDataService\<close>,
  \<^verbatim>\<open>error.platform.fetchPricingDataService\<close>) and the delayed event of
  \<^verbatim>\<open>after: {500: ...}\<close>. The callback of \<^verbatim>\<open>CONFIRM_PRICE\<close> is opaque: calling it is
  an effect.
\<close>

datatype CommerceMachineEvent =
    CHANGE_QUANTITY int
  | REMOVE_PPP_COUPON
  | APPLY_PPP_COUPON
  | CONFIRM_PRICE
  | SWITCH_PRICE string
  | DONE_fetchPricingDataService json
  | ERROR_fetchPricingDataService
  | AFTER_500

text \<open>The initial context of the machine.\<close>

definition initialContext :: CommerceMachineContext where
  "initialContext =
     \<lparr>pricingData = JObj [], priceId = None, quantity = 1, couponToApply = None\<rparr>"

section \<open>Actions\<close>

text \<open>
  An \<^verbatim>\<open>assign\<close> whose argument is a function merges the object the function returns
  into the context (\<^verbatim>\<open>Object.assign\<close>): a key that is absent leaves the field as it
  was, a key that is present overwrites it, also with \<^verbatim>\<open>undefined\<close>.
\<close>

datatype 'a key = Absent | Present 'a

record ContextUpdate =
  upd_pricingData :: "json key"
  upd_couponToApply :: "CouponToApply option key"

definition assign :: "ContextUpdate \<Rightarrow> CommerceMachineContext \<Rightarrow> CommerceMachineContext" where
  "assign u context =
     (let c1 = (case upd_pricingData u of
                  Absent \<Rightarrow> context
                | Present d \<Rightarrow> context\<lparr>pricingData := d\<rparr>)
      in case upd_couponToApply u of
           Absent \<Rightarrow> c1
         | Present c \<Rightarrow> c1\<lparr>couponToApply := c\<rparr>)"

text \<open>
  \<^verbatim>\<open>extractAppliedDefaultCoupon\<close>, the inner function of \<^verbatim>\<open>assignPricingData\<close>. It
  returns \<^verbatim>\<open>{}\<close> (key absent) or \<^verbatim>\<open>{couponToApply: {couponCode, couponType: 'default'}}\<close>.
\<close>

definition extractAppliedDefaultCoupon :: "json \<Rightarrow> CouponToApply option key" where
  "extractAppliedDefaultCoupon pd =
     (let availableDefaultCoupon = readProp (readProp pd ''available_coupons'') ''default'';
          appliedCoupon = readProp pd ''applied_coupon''
      in if isEmpty availableDefaultCoupon \<or> isEmpty appliedCoupon then Absent
         else if strictEq (readProp availableDefaultCoupon ''coupon_code'')
                          (readProp appliedCoupon ''coupon_code'')
           then Present (Some \<lparr>couponCode = readProp appliedCoupon ''coupon_code'',
                               couponType = DEFAULT\<rparr>)
         else Absent)"

text \<open>
  \<^verbatim>\<open>pricingPlanSchema\<close> is imported from the module \<^verbatim>\<open>types\<close>, which is not among the
  sources. It is a parameter of the model: a zod schema is a function from a value to the
  parsed value, or to nothing when the value does not fit. Of a parsed plan the machine
  reads the two properties below.
\<close>

record PricingPlan =
  stripe_price_id :: json
  price_discounted :: json

type_synonym planSchema = "json \<Rightarrow> PricingPlan option"

text \<open>
  \<^verbatim>\<open>z.object({plans: z.array(pricingPlanSchema)}).safeParse(v)\<close>: \<^verbatim>\<open>v\<close> must be an
  object (not an array, not \<^verbatim>\<open>null\<close>) whose \<^verbatim>\<open>plans\<close> is an array of which every
  element fits the schema; the result holds the parsed plans.
\<close>

definition safeParsePlans :: "planSchema \<Rightarrow> json \<Rightarrow> PricingPlan list option" where
  "safeParsePlans pricingPlanSchema v =
     (case v of
        JObj kvs \<Rightarrow>
          (case readProp v ''plans'' of
             JArr xs \<Rightarrow> those (map pricingPlanSchema xs)
           | _ \<Rightarrow> None)
      | _ \<Rightarrow> None)"

definition priceIdValue :: "string option \<Rightarrow> json" where
  "priceIdValue p = (case p of None \<Rightarrow> JUndefined | Some s \<Rightarrow> JStr s)"

text \<open>
  \<^verbatim>\<open>assignPricingData\<close>. The value it validates, and in which it looks the current plan
  up, is \<^verbatim>\<open>context.pricingData\<close>: the data of the context before this fetch completed.
  The coupons are read from \<^verbatim>\<open>event.data\<close>.
\<close>

definition assignPricingData ::
    "planSchema \<Rightarrow> CommerceMachineContext \<Rightarrow> CommerceMachineEvent \<Rightarrow> ContextUpdate" where
  "assignPricingData pricingPlanSchema context event =
     (case event of
        DONE_fetchPricingDataService data \<Rightarrow>
          (case safeParsePlans pricingPlanSchema (pricingData context) of
             None \<Rightarrow> \<lparr>upd_pricingData = Present data, upd_couponToApply = Absent\<rparr>
           | Some plans \<Rightarrow>
               (let currentPlan =
                      find (\<lambda>plan. strictEq (stripe_price_id plan)
                                             (priceIdValue (priceId context))) plans;
                    noCouponToApply =
                      isEmpty (case currentPlan of
                                 None \<Rightarrow> JUndefined
                               | Some plan \<Rightarrow> price_discounted plan);
                    couponData =
                      (if noCouponToApply then Present None
                       else extractAppliedDefaultCoupon data)
                in \<lparr>upd_pricingData = Present data, upd_couponToApply = couponData\<rparr>))
      | _ \<Rightarrow> \<lparr>upd_pricingData = Absent, upd_couponToApply = Absent\<rparr>)"

definition updateQuantity ::
    "CommerceMachineContext \<Rightarrow> CommerceMachineEvent \<Rightarrow> CommerceMachineContext" where
  "updateQuantity context event =
     (case event of
        CHANGE_QUANTITY q \<Rightarrow> context\<lparr>quantity := q\<rparr>
      | _ \<Rightarrow> context)"

text \<open>
  \<^verbatim>\<open>applyPPPCoupon\<close>: the value assigned to \<^verbatim>\<open>couponToApply\<close>. The zod schema wants
  an object whose \<^verbatim>\<open>available_coupons\<close> is an object whose \<^verbatim>\<open>ppp\<close> is an object whose
  \<^verbatim>\<open>coupon_code\<close> is a string.
\<close>

definition pppCouponSchema :: "json \<Rightarrow> CouponToApply option" where
  "pppCouponSchema v =
     (case v of
        JObj _ \<Rightarrow>
          (case readProp v ''available_coupons'' of
             JObj kvs1 \<Rightarrow>
               (case readProp (JObj kvs1) ''ppp'' of
                  JObj kvs2 \<Rightarrow>
                    (case readProp (JObj kvs2) ''coupon_code'' of
                       JStr s \<Rightarrow> Some \<lparr>couponCode = JStr s, couponType = PPP\<rparr>
                     | _ \<Rightarrow> None)
                | _ \<Rightarrow> None)
           | _ \<Rightarrow> None)
      | _ \<Rightarrow> None)"

definition applyPPPCoupon :: "CommerceMachineContext \<Rightarrow> CommerceMachineContext" where
  "applyPPPCoupon context = context\<lparr>couponToApply := pppCouponSchema (pricingData context)\<rparr>"

definition removePPPCoupon :: "CommerceMachineContext \<Rightarrow> CommerceMachineContext" where
  "removePPPCoupon context = context\<lparr>couponToApply := None\<rparr>"

section \<open>Guards\<close>

definition pricingIncludesPPPCoupon :: "CommerceMachineContext \<Rightarrow> bool" where
  "pricingIncludesPPPCoupon context =
     (case couponToApply context of None \<Rightarrow> False | Some c \<Rightarrow> couponType c = PPP)"

definition pricingIncludesDefaultCoupon :: "CommerceMachineContext \<Rightarrow> bool" where
  "pricingIncludesDefaultCoupon context =
     (case couponToApply context of None \<Rightarrow> False | Some c \<Rightarrow> couponType c = DEFAULT)"

section \<open>The machine\<close>

text \<open>
  The states in which the machine rests. \<^verbatim>\<open>pricesLoaded.checkingCouponStatus\<close> is left
  at once by its \<^verbatim>\<open>always\<close> transitions, of which the last has no guard, so the machine
  never rests there.
\<close>

datatype CommerceMachineState =
    loadingPrices
  | debouncingQuantityChange
  | withPPPCoupon
  | withDefaultCoupon
  | withoutCoupon
  | pricingFetchFailed

text \<open>
  What the machine asks of its environment: the call of \<^verbatim>\<open>loadPricingData\<close> with a
  quantity and a coupon code, made when \<^verbatim>\<open>loadingPrices\<close> is entered; the delayed event
  of \<^verbatim>\<open>debouncingQuantityChange\<close>, scheduled on entry and cancelled on exit; the call of
  the checkout callback.
\<close>

datatype effect =
    FetchPricingData int json
  | StartDelay nat
  | CancelDelay
  | OnClickCheckout

definition fetchPricingData :: "CommerceMachineContext \<Rightarrow> effect" where
  "fetchPricingData context =
     FetchPricingData (quantity context)
       (case couponToApply context of None \<Rightarrow> JUndefined | Some c \<Rightarrow> couponCode c)"

definition checkingCouponStatus :: "CommerceMachineContext \<Rightarrow> CommerceMachineState" where
  "checkingCouponStatus context =
     (if pricingIncludesPPPCoupon context then withPPPCoupon
      else if pricingIncludesDefaultCoupon context then withDefaultCoupon
      else withoutCoupon)"

definition inPricesLoaded :: "CommerceMachineState \<Rightarrow> bool" where
  "inPricesLoaded s = (s = withPPPCoupon \<or> s = withDefaultCoupon \<or> s = withoutCoupon)"

text \<open>
  One step of the running machine. The handler of the deepest state wins; the root's
  \<^verbatim>\<open>CHANGE_QUANTITY\<close> applies where no state handles the event itself. An event for
  which no handler exists leaves state and context as they are; so do the two events of
  the fetch outside \<^verbatim>\<open>loadingPrices\<close>, where the invoked service has been stopped.
  Assignments are made before the target state is entered, so the fetch and the guards of
  \<^verbatim>\<open>checkingCouponStatus\<close> see the updated context. \<^verbatim>\<open>pricingFetchFailed\<close> has
  \<^verbatim>\<open>type: 'final'\<close> and is a child of the root: on reaching it the machine is done, the
  interpreter stops, and a stopped interpreter drops every event sent to it.
\<close>

definition transition ::
    "planSchema \<Rightarrow> CommerceMachineState \<times> CommerceMachineContext \<Rightarrow> CommerceMachineEvent
      \<Rightarrow> (CommerceMachineState \<times> CommerceMachineContext) \<times> effect list" where
  "transition pricingPlanSchema sc event =
     (let s = fst sc; context = snd sc in
      if s = pricingFetchFailed then (sc, [])
      else case event of
        CHANGE_QUANTITY q \<Rightarrow>
          ((debouncingQuantityChange, updateQuantity context event),
           (if s = debouncingQuantityChange then [CancelDelay] else []) @ [StartDelay 500])
      | AFTER_500 \<Rightarrow>
          (if s = debouncingQuantityChange
           then ((loadingPrices, context), [CancelDelay, fetchPricingData context])
           else (sc, []))
      | DONE_fetchPricingDataService data \<Rightarrow>
          (if s = loadingPrices
           then (let context' = assign (assignPricingData pricingPlanSchema context event) context
                 in ((checkingCouponStatus context', context'), []))
           else (sc, []))
      | ERROR_fetchPricingDataService \<Rightarrow>
          (if s = loadingPrices then ((pricingFetchFailed, context), []) else (sc, []))
      | SWITCH_PRICE p \<Rightarrow>
          (if inPricesLoaded s then ((s, context\<lparr>priceId := Some p\<rparr>), []) else (sc, []))
      | CONFIRM_PRICE \<Rightarrow>
          (if inPricesLoaded s then (sc, [OnClickCheckout]) else (sc, []))
      | REMOVE_PPP_COUPON \<Rightarrow>
          (if s = withPPPCoupon
           then (let context' = removePPPCoupon context
                 in ((loadingPrices, context'), [fetchPricingData context']))
           else (sc, []))
      | APPLY_PPP_COUPON \<Rightarrow>
          (if s = withDefaultCoupon \<or> s = withoutCoupon
           then (let context' = applyPPPCoupon context
                 in ((loadingPrices, context'), [fetchPricingData context']))
           else (sc, [])))"

text \<open>The machine starts in \<^verbatim>\<open>loadingPrices\<close>, which invokes the fetch.\<close>

definition initialState ::
    "(CommerceMachineState \<times> CommerceMachineContext) \<times> effect list" where
  "initialState = ((loadingPrices, initialContext), [fetchPricingData initialContext])"

text \<open>A sequence of events, with the effects in the order in which they are asked for.\<close>

fun run ::
    "planSchema \<Rightarrow> CommerceMachineState \<times> CommerceMachineContext \<Rightarrow> CommerceMachineEvent list
      \<Rightarrow> (CommerceMachineState \<times> CommerceMachineContext) \<times> effect list" where
  "run pricingPlanSchema sc [] = (sc, [])"
| "run pricingPlanSchema sc (e # es) =
     (let (sc1, fx1) = transition pricingPlanSchema sc e;
          (sc2, fx2) = run pricingPlanSchema sc1 es
      in (sc2, fx1 @ fx2))"

definition isFetch :: "effect \<Rightarrow> bool" where
  "isFetch x = (case x of FetchPricingData _ _ \<Rightarrow> True | _ \<Rightarrow> False)"

text \<open>
  Modelled from the spec: \<^verbatim>\<open>pricingPlanSchema\<close> of the module \<^verbatim>\<open>types\<close>, which is
  missing. The spec gives a plan the shape \<^verbatim>\<open>{planId: string, priceDiscounted?: number, ...}\<close>
  (section 6; the code calls the two properties \<^verbatim>\<open>stripe_price_id\<close> and
  \<^verbatim>\<open>price_discounted\<close>): the identifier is a string, and the discounted price is a
  number or is not there. It serves as the schema of the concrete runs below; the general
  theorems hold for every schema.
\<close>

definition pricingPlanSchema_spec :: planSchema where
  "pricingPlanSchema_spec v =
     (case v of
        JObj kvs \<Rightarrow>
          (case readProp v ''stripe_price_id'' of
             JStr s \<Rightarrow>
               (case readProp v ''price_discounted'' of
                  JNum n \<Rightarrow> Some \<lparr>stripe_price_id = JStr s, price_discounted = JNum n\<rparr>
                | JUndefined \<Rightarrow> Some \<lparr>stripe_price_id = JStr s, price_discounted = JUndefined\<rparr>
                | _ \<Rightarrow> None)
           | _ \<Rightarrow> None)
      | _ \<Rightarrow> None)"

text \<open>
  \<^verbatim>\<open>findAvailablePPPCoupon\<close>: \<^verbatim>\<open>pricingData?.available_coupons?.ppp\<close>.
\<close>

definition findAvailablePPPCoupon :: "json \<Rightarrow> json" where
  "findAvailablePPPCoupon pd = readProp (readProp pd ''available_coupons'') ''ppp''"

section \<open>The machine on a clock\<close>

text \<open>
  The delayed event of \<^verbatim>\<open>debouncingQuantityChange\<close> is sent by a timer of the
  interpreter. Time is counted in milliseconds. The running machine holds the time at
  which the pending delayed event is due, if one is pending, and the effects it has asked
  for, each with the time at which it was asked for.
\<close>

record timedMachine =
  config :: "CommerceMachineState \<times> CommerceMachineContext"
  due :: "nat option"
  issued :: "(nat \<times> effect) list"

fun schedule :: "nat \<Rightarrow> nat option \<Rightarrow> effect \<Rightarrow> nat option" where
  "schedule now d (StartDelay ms) = Some (now + ms)"
| "schedule now d CancelDelay = None"
| "schedule now d _ = d"

definition deliver ::
    "planSchema \<Rightarrow> nat \<Rightarrow> CommerceMachineEvent \<Rightarrow> timedMachine \<Rightarrow> timedMachine" where
  "deliver pricingPlanSchema now event m =
     (let (sc, fx) = transition pricingPlanSchema (config m) event
      in \<lparr>config = sc,
          due = foldl (schedule now) (due m) fx,
          issued = issued m @ map (Pair now) fx\<rparr>)"

text \<open>The clock reaches \<open>now\<close>: a delayed event that is due by then is delivered, at its time.\<close>

definition elapse :: "planSchema \<Rightarrow> nat \<Rightarrow> timedMachine \<Rightarrow> timedMachine" where
  "elapse pricingPlanSchema now m =
     (case due m of
        None \<Rightarrow> m
      | Some d \<Rightarrow>
          if d \<le> now then deliver pricingPlanSchema d AFTER_500 (m\<lparr>due := None\<rparr>) else m)"

text \<open>An event sent from outside at the time \<open>now\<close>.\<close>

definition send ::
    "planSchema \<Rightarrow> nat \<Rightarrow> CommerceMachineEvent \<Rightarrow> timedMachine \<Rightarrow> timedMachine" where
  "send pricingPlanSchema now event m =
     deliver pricingPlanSchema now event (elapse pricingPlanSchema now m)"

text \<open>A burst of quantity changes, each with the time at which it is sent.\<close>

fun sendQuantities :: "planSchema \<Rightarrow> (nat \<times> int) list \<Rightarrow> timedMachine \<Rightarrow> timedMachine" where
  "sendQuantities pricingPlanSchema [] m = m"
| "sendQuantities pricingPlanSchema ((t, q) # rest) m =
     sendQuantities pricingPlanSchema rest (send pricingPlanSchema t (CHANGE_QUANTITY q) m)"

text \<open>
  Every event of the burst comes less than 500 ms after the one before it (and not
  before it).
\<close>

fun within500 :: "nat \<Rightarrow> (nat \<times> int) list \<Rightarrow> bool" where
  "within500 t [] = True"
| "within500 t ((t', q) # rest) = (t \<le> t' \<and> t' < t + 500 \<and> within500 t' rest)"

definition fetchesOf :: "(nat \<times> effect) list \<Rightarrow> (nat \<times> effect) list" where
  "fetchesOf log = filter (\<lambda>x. isFetch (snd x)) log"

section \<open>Payloads of the scenarios\<close>

definition plan_p1_discounted :: json where
  "plan_p1_discounted =
     JObj [(''stripe_price_id'', JStr ''p1''), (''price_discounted'', JNum 10)]"

definition plan_p1_undiscounted :: json where
  "plan_p1_undiscounted = JObj [(''stripe_price_id'', JStr ''p1'')]"

definition coupon :: "string \<Rightarrow> json" where
  "coupon code = JObj [(''coupon_code'', JStr code)]"

text \<open>The payload of the spec's first scenario, with the property names of the code.\<close>

definition payload_default_applied :: json where
  "payload_default_applied =
     JObj [(''plans'', JArr [plan_p1_discounted]),
           (''available_coupons'', JObj [(''default'', coupon ''D1'')]),
           (''applied_coupon'', coupon ''D1'')]"

definition payload_other_applied :: json where
  "payload_other_applied =
     JObj [(''plans'', JArr [plan_p1_discounted]),
           (''available_coupons'', JObj [(''default'', coupon ''D1'')]),
           (''applied_coupon'', coupon ''OTHER'')]"

definition payload_ppp_available :: json where
  "payload_ppp_available =
     JObj [(''plans'', JArr [plan_p1_discounted]),
           (''available_coupons'', JObj [(''ppp'', coupon ''PPP1'')])]"

text \<open>A payload with an empty list of plans: the list fits whatever the plan schema is.\<close>

definition payload_ppp_empty_plans :: json where
  "payload_ppp_empty_plans =
     JObj [(''plans'', JArr []),
           (''available_coupons'', JObj [(''ppp'', coupon ''PPP1'')])]"

definition payload_no_plans :: json where
  "payload_no_plans = JObj [(''available_coupons'', JObj [(''ppp'', coupon ''PPP1'')])]"

definition payload_plans_malformed :: json where
  "payload_plans_malformed = JObj [(''plans'', JStr ''oops'')]"

definition payload_ppp_applied_undiscounted :: json where
  "payload_ppp_applied_undiscounted =
     JObj [(''plans'', JArr [plan_p1_undiscounted]),
           (''available_coupons'', JObj [(''ppp'', coupon ''PPP1'')]),
           (''applied_coupon'', coupon ''PPP1'')]"

text \<open>Payloads whose regional coupon is \<^verbatim>\<open>null\<close>, or an object without a code.\<close>

definition payload_ppp_null :: json where
  "payload_ppp_null =
     JObj [(''plans'', JArr [plan_p1_discounted]),
           (''available_coupons'', JObj [(''ppp'', JNull)])]"

definition payload_ppp_without_code :: json where
  "payload_ppp_without_code =
     JObj [(''plans'', JArr [plan_p1_discounted]),
           (''available_coupons'', JObj [(''ppp'', JObj [])])]"

text \<open>Contexts of the scenarios.\<close>

definition context_ppp_applied :: CommerceMachineContext where
  "context_ppp_applied =
     \<lparr>pricingData = payload_ppp_available, priceId = None, quantity = 1,
      couponToApply = Some \<lparr>couponCode = JStr ''PPP1'', couponType = PPP\<rparr>\<rparr>"

definition context_default_inferred :: CommerceMachineContext where
  "context_default_inferred =
     \<lparr>pricingData = payload_default_applied, priceId = Some ''p1'', quantity = 1,
      couponToApply = Some \<lparr>couponCode = JStr ''D1'', couponType = DEFAULT\<rparr>\<rparr>"

definition machine_idle :: timedMachine where
  "machine_idle = \<lparr>config = (withoutCoupon, initialContext), due = None, issued = []\<rparr>"

section \<open>Facts about the actions\<close>

lemmas payload_defs =
  plan_p1_discounted_def plan_p1_undiscounted_def coupon_def payload_default_applied_def
  payload_other_applied_def payload_ppp_available_def payload_no_plans_def
  payload_ppp_empty_plans_def
  payload_plans_malformed_def payload_ppp_applied_undiscounted_def payload_ppp_null_def
  payload_ppp_without_code_def

lemmas context_defs =
  context_ppp_applied_def context_default_inferred_def

lemmas machine_defs =
  transition_def assign_def assignPricingData_def safeParsePlans_def priceIdValue_def
  updateQuantity_def applyPPPCoupon_def removePPPCoupon_def pppCouponSchema_def
  checkingCouponStatus_def pricingIncludesPPPCoupon_def pricingIncludesDefaultCoupon_def
  fetchPricingData_def inPricesLoaded_def extractAppliedDefaultCoupon_def initialContext_def

text \<open>
  What \<^verbatim>\<open>assignPricingData\<close> does in each of its three branches. The branch is chosen
  by the data the context held before the fetch, whatever the payload is.
\<close>

lemma assignPricingData_stale_invalid:
  "safeParsePlans sch (pricingData c) = None \<Longrightarrow>
   assign (assignPricingData sch c (DONE_fetchPricingDataService d)) c = c\<lparr>pricingData := d\<rparr>"
  by (simp add: assignPricingData_def assign_def)

lemma assignPricingData_no_plan:
  "safeParsePlans sch (pricingData c) = Some plans \<Longrightarrow>
   find (\<lambda>plan. strictEq (stripe_price_id plan) (priceIdValue (priceId c))) plans = None \<Longrightarrow>
   assignPricingData sch c (DONE_fetchPricingDataService d)
     = \<lparr>upd_pricingData = Present d, upd_couponToApply = Present None\<rparr>"
  by (simp add: assignPricingData_def)

lemma assignPricingData_discounted:
  "safeParsePlans sch (pricingData c) = Some plans \<Longrightarrow>
   find (\<lambda>plan. strictEq (stripe_price_id plan) (priceIdValue (priceId c))) plans = Some plan \<Longrightarrow>
   \<not> isEmpty (price_discounted plan) \<Longrightarrow>
   assignPricingData sch c (DONE_fetchPricingDataService d)
     = \<lparr>upd_pricingData = Present d, upd_couponToApply = extractAppliedDefaultCoupon d\<rparr>"
  by (simp add: assignPricingData_def)

text \<open>
  A discounted price that is a number is empty for \<^verbatim>\<open>isEmpty\<close>: a plan whose parsed
  \<^verbatim>\<open>price_discounted\<close> is a number counts as a plan without a discount.
\<close>

lemma assignPricingData_numeric_discount:
  "safeParsePlans sch (pricingData c) = Some plans \<Longrightarrow>
   find (\<lambda>plan. strictEq (stripe_price_id plan) (priceIdValue (priceId c))) plans = Some plan \<Longrightarrow>
   price_discounted plan = JNum n \<Longrightarrow>
   assignPricingData sch c (DONE_fetchPricingDataService d)
     = \<lparr>upd_pricingData = Present d, upd_couponToApply = Present None\<rparr>"
  by (simp add: assignPricingData_def)

lemma assignPricingData_coupon_cases:
  "upd_couponToApply (assignPricingData sch c e) = Absent
   \<or> upd_couponToApply (assignPricingData sch c e) = Present None
   \<or> (\<exists>code. upd_couponToApply (assignPricingData sch c e)
              = Present (Some \<lparr>couponCode = code, couponType = DEFAULT\<rparr>))"
  by (auto simp add: assignPricingData_def extractAppliedDefaultCoupon_def Let_def
      split: CommerceMachineEvent.splits option.splits)


text \<open>
  With a plan schema whose discounted price is a number or is not there, as the spec has
  it, no plan has a discounted price that is not empty for \<^verbatim>\<open>isEmpty\<close>, and the
  inference step is never reached.
\<close>

lemma those_map_Some:
  "those (map f xs) = Some ys \<Longrightarrow> y \<in> set ys \<Longrightarrow> \<exists>x. f x = Some y"
proof (induction xs arbitrary: ys)
  case Nil
  then show ?case by simp
next
  case (Cons x xs)
  then show ?case by (auto split: option.splits)
qed

lemma safeParsePlans_member:
  "safeParsePlans sch v = Some plans \<Longrightarrow> plan \<in> set plans \<Longrightarrow> \<exists>x. sch x = Some plan"
  by (auto simp add: safeParsePlans_def split: json.splits dest: those_map_Some)

lemma numeric_schema_never_infers:
  assumes "\<And>v p. sch v = Some p \<Longrightarrow> isEmpty (price_discounted p)"
  shows "upd_couponToApply (assignPricingData sch c e) = Absent
         \<or> upd_couponToApply (assignPricingData sch c e) = Present None"
proof (cases e)
  case (DONE_fetchPricingDataService d)
  show ?thesis
  proof (cases "safeParsePlans sch (pricingData c)")
    case None
    with DONE_fetchPricingDataService show ?thesis by (simp add: assignPricingData_def)
  next
    case (Some plans)
    show ?thesis
    proof (cases "find (\<lambda>plan. strictEq (stripe_price_id plan) (priceIdValue (priceId c))) plans")
      case None
      with Some DONE_fetchPricingDataService show ?thesis
        by (simp add: assignPricingData_def)
    next
      case (Some plan)
      then have "plan \<in> set plans" by (auto simp add: find_Some_iff)
      with \<open>safeParsePlans sch (pricingData c) = Some plans\<close>
      obtain x where "sch x = Some plan" by (blast dest: safeParsePlans_member)
      then have "isEmpty (price_discounted plan)" by (rule assms)
      with Some \<open>safeParsePlans sch (pricingData c) = Some plans\<close> DONE_fetchPricingDataService
      show ?thesis by (simp add: assignPricingData_def)
    qed
  qed
qed (simp_all add: assignPricingData_def)

lemma pricingPlanSchema_spec_numeric:
  "pricingPlanSchema_spec v = Some p \<Longrightarrow> isEmpty (price_discounted p)"
  by (auto simp add: pricingPlanSchema_spec_def split: json.splits)



text \<open>
  The zod schema of \<^verbatim>\<open>applyPPPCoupon\<close> succeeds exactly when
  \<^verbatim>\<open>pricingData.available_coupons.ppp.coupon_code\<close> is a string.
\<close>

lemma pppCouponSchema_code:
  "readProp (findAvailablePPPCoupon pd) ''coupon_code'' = JStr code \<Longrightarrow>
   pppCouponSchema pd = Some \<lparr>couponCode = JStr code, couponType = PPP\<rparr>"
  by (cases pd; cases "readProp pd ''available_coupons''";
      cases "readProp (readProp pd ''available_coupons'') ''ppp''")
     (simp_all add: pppCouponSchema_def findAvailablePPPCoupon_def)

lemma pppCouponSchema_none:
  "\<nexists>code. readProp (findAvailablePPPCoupon pd) ''coupon_code'' = JStr code \<Longrightarrow>
   pppCouponSchema pd = None"
  by (cases pd; cases "readProp pd ''available_coupons''";
      cases "readProp (readProp pd ''available_coupons'') ''ppp''")
     (auto simp add: pppCouponSchema_def findAvailablePPPCoupon_def split: json.splits)

section \<open>Facts about the transitions\<close>

lemma transition_final:
  "transition sch (pricingFetchFailed, c) e = ((pricingFetchFailed, c), [])"
  by (simp add: transition_def)

lemma run_final:
  "run sch (pricingFetchFailed, c) es = ((pricingFetchFailed, c), [])"
  by (induction es) (simp_all add: transition_final)

lemma transition_done:
  "transition sch (loadingPrices, c) (DONE_fetchPricingDataService d)
   = ((checkingCouponStatus (assign (assignPricingData sch c (DONE_fetchPricingDataService d)) c),
       assign (assignPricingData sch c (DONE_fetchPricingDataService d)) c), [])"
  by (simp add: transition_def Let_def)

lemma transition_apply:
  "s = withDefaultCoupon \<or> s = withoutCoupon \<Longrightarrow>
   transition sch (s, c) APPLY_PPP_COUPON
   = ((loadingPrices, c\<lparr>couponToApply := pppCouponSchema (pricingData c)\<rparr>),
      [FetchPricingData (quantity c)
         (case pppCouponSchema (pricingData c) of None \<Rightarrow> JUndefined | Some r \<Rightarrow> couponCode r)])"
  by (auto simp add: transition_def applyPPPCoupon_def fetchPricingData_def)

lemma transition_change_quantity:
  "s \<noteq> pricingFetchFailed \<Longrightarrow>
   transition sch (s, c) (CHANGE_QUANTITY q)
   = ((debouncingQuantityChange, c\<lparr>quantity := q\<rparr>),
      (if s = debouncingQuantityChange then [CancelDelay] else []) @ [StartDelay 500])"
  by (simp add: transition_def updateQuantity_def)

lemma transition_after:
  "transition sch (s, c) AFTER_500
   = (if s = debouncingQuantityChange
      then ((loadingPrices, c), [CancelDelay, fetchPricingData c]) else ((s, c), []))"
  by (simp add: transition_def)

text \<open>
  No event but \<^verbatim>\<open>APPLY_PPP_COUPON\<close> puts a coupon of type \<^verbatim>\<open>ppp\<close> into the context,
  so without that event the machine stays out of \<^verbatim>\<open>withPPPCoupon\<close>.
\<close>

lemma assign_keeps_no_ppp:
  assumes "\<not> pricingIncludesPPPCoupon c"
  shows "\<not> pricingIncludesPPPCoupon (assign (assignPricingData sch c e) c)"
  using assignPricingData_coupon_cases[of sch c e] assms
  by (auto simp add: assign_def pricingIncludesPPPCoupon_def split: key.splits)

lemma checking_not_ppp:
  "\<not> pricingIncludesPPPCoupon c \<Longrightarrow> checkingCouponStatus c \<noteq> withPPPCoupon"
  by (simp add: checkingCouponStatus_def)

lemma no_ppp_step:
  assumes "\<not> pricingIncludesPPPCoupon c" "s \<noteq> withPPPCoupon" "e \<noteq> APPLY_PPP_COUPON"
  shows "\<not> pricingIncludesPPPCoupon (snd (fst (transition sch (s, c) e)))
         \<and> fst (fst (transition sch (s, c) e)) \<noteq> withPPPCoupon"
proof (cases e)
  case (DONE_fetchPricingDataService d)
  with assms show ?thesis
    using assign_keeps_no_ppp[OF assms(1), of sch e]
    by (auto simp add: transition_def Let_def checking_not_ppp)
qed (use assms in \<open>auto simp add: transition_def Let_def updateQuantity_def
       pricingIncludesPPPCoupon_def removePPPCoupon_def\<close>)

lemma no_ppp_run:
  "\<not> pricingIncludesPPPCoupon c \<Longrightarrow> s \<noteq> withPPPCoupon \<Longrightarrow> APPLY_PPP_COUPON \<notin> set es \<Longrightarrow>
   \<not> pricingIncludesPPPCoupon (snd (fst (run sch (s, c) es)))
   \<and> fst (fst (run sch (s, c) es)) \<noteq> withPPPCoupon"
proof (induction es arbitrary: s c)
  case Nil
  then show ?case by simp
next
  case (Cons e es)
  obtain s1 c1 fx1 where t: "transition sch (s, c) e = ((s1, c1), fx1)"
    by (metis prod.collapse)
  from Cons.prems have "e \<noteq> APPLY_PPP_COUPON" "APPLY_PPP_COUPON \<notin> set es" by auto
  with no_ppp_step[of c s e sch] Cons.prems t
  have "\<not> pricingIncludesPPPCoupon c1" "s1 \<noteq> withPPPCoupon" by auto
  from Cons.IH[OF this \<open>APPLY_PPP_COUPON \<notin> set es\<close>] t
  show ?case by (simp add: split_beta)
qed

section \<open>Facts about the machine on a clock\<close>

lemma isFetch_simps:
  "isFetch (FetchPricingData n v)" "\<not> isFetch (StartDelay k)" "\<not> isFetch CancelDelay"
  "\<not> isFetch OnClickCheckout"
  by (simp_all add: isFetch_def)

lemma elapse_before_due: "due m = Some d \<Longrightarrow> now < d \<Longrightarrow> elapse sch now m = m"
  by (simp add: elapse_def)

lemma elapse_config:
  assumes "fst (config m) \<noteq> pricingFetchFailed"
  shows "fst (config (elapse sch now m)) \<noteq> pricingFetchFailed
         \<and> snd (config (elapse sch now m)) = snd (config m)"
proof -
  obtain s c where sc: "config m = (s, c)" by (metis prod.collapse)
  with assms show ?thesis
    by (simp add: elapse_def deliver_def transition_after split: option.splits)
qed

lemma send_change_quantity:
  assumes "fst (config m) \<noteq> pricingFetchFailed"
  shows "config (send sch now (CHANGE_QUANTITY q) m)
           = (debouncingQuantityChange, (snd (config m))\<lparr>quantity := q\<rparr>)"
    and "due (send sch now (CHANGE_QUANTITY q) m) = Some (now + 500)"
    and "fetchesOf (issued (send sch now (CHANGE_QUANTITY q) m))
           = fetchesOf (issued (elapse sch now m))"
proof -
  obtain s c where sc: "config (elapse sch now m) = (s, c)" by (metis prod.collapse)
  with elapse_config[OF assms, of sch now]
  have s: "s \<noteq> pricingFetchFailed" and c: "c = snd (config m)" by simp_all
  show "config (send sch now (CHANGE_QUANTITY q) m)
           = (debouncingQuantityChange, (snd (config m))\<lparr>quantity := q\<rparr>)"
    using sc s c by (simp add: send_def deliver_def transition_change_quantity)
  show "due (send sch now (CHANGE_QUANTITY q) m) = Some (now + 500)"
    using sc s by (simp add: send_def deliver_def transition_change_quantity)
  show "fetchesOf (issued (send sch now (CHANGE_QUANTITY q) m))
           = fetchesOf (issued (elapse sch now m))"
    using sc s
    by (simp add: send_def deliver_def transition_change_quantity fetchesOf_def isFetch_simps)
qed

text \<open>
  While the machine debounces, an event that comes before the delay is over restarts the
  delay; induction on the burst, with the machine, its context and the time of the last
  event generalised.
\<close>

lemma burst_in_debounce:
  "config m = (debouncingQuantityChange, c) \<Longrightarrow> due m = Some (t + 500) \<Longrightarrow> within500 t rest \<Longrightarrow>
   config (sendQuantities sch rest m)
     = (debouncingQuantityChange, c\<lparr>quantity := snd (last ((t, quantity c) # rest))\<rparr>)
   \<and> due (sendQuantities sch rest m) = Some (fst (last ((t, quantity c) # rest)) + 500)
   \<and> fetchesOf (issued (sendQuantities sch rest m)) = fetchesOf (issued m)"
proof (induction rest arbitrary: m c t)
  case Nil
  then show ?case by simp
next
  case (Cons x rest)
  obtain t' q' where x: "x = (t', q')" by (cases x)
  let ?m1 = "send sch t' (CHANGE_QUANTITY q') m"
  from Cons.prems x have t': "t' < t + 500" and w: "within500 t' rest" by simp_all
  have nf: "fst (config m) \<noteq> pricingFetchFailed" using Cons.prems(1) by simp
  have e: "elapse sch t' m = m" using Cons.prems(2) t' by (rule elapse_before_due)
  have c1: "config ?m1 = (debouncingQuantityChange, c\<lparr>quantity := q'\<rparr>)"
    using send_change_quantity(1)[OF nf, of sch t' q'] Cons.prems(1) by simp
  have d1: "due ?m1 = Some (t' + 500)" by (rule send_change_quantity(2)[OF nf])
  have f1: "fetchesOf (issued ?m1) = fetchesOf (issued m)"
    using send_change_quantity(3)[OF nf, of sch t' q'] e by simp
  from Cons.IH[OF c1 d1 w] f1 x show ?case by simp
qed

section \<open>The first fetch and the stale validation\<close>

text \<open>
  C1. The spec's first scenario: from the initial context with \<^verbatim>\<open>priceId = 'p1'\<close>, a
  fetch that returns plan \<^verbatim>\<open>p1\<close> with a discounted price of 10 and the default coupon
  \<^verbatim>\<open>D1\<close>, both available and applied, should end in \<^verbatim>\<open>withDefaultCoupon\<close> with
  \<^verbatim>\<open>couponToApply = {D1, default}\<close>. What the code does at this input: it validates the
  data of the context, which is still \<^verbatim>\<open>{}\<close>, so for every plan schema it only stores
  the payload and ends in \<^verbatim>\<open>withoutCoupon\<close> with no coupon. When the same payload
  comes again after a quantity change, the stored data is valid, the plan is found, and
  its discounted price 10, a number, is empty for \<^verbatim>\<open>isEmpty\<close>: no coupon again.
\<close>

theorem C1_default_coupon_not_inferred:
  "transition sch (loadingPrices, initialContext\<lparr>priceId := Some ''p1''\<rparr>)
     (DONE_fetchPricingDataService payload_default_applied)
   = ((withoutCoupon,
       \<lparr>pricingData = payload_default_applied, priceId = Some ''p1'', quantity = 1,
        couponToApply = None\<rparr>), [])
   \<and> fst (run pricingPlanSchema_spec (loadingPrices, initialContext\<lparr>priceId := Some ''p1''\<rparr>)
            [DONE_fetchPricingDataService payload_default_applied, CHANGE_QUANTITY 1, AFTER_500,
             DONE_fetchPricingDataService payload_default_applied])
     = (withoutCoupon,
        \<lparr>pricingData = payload_default_applied, priceId = Some ''p1'', quantity = 1,
         couponToApply = None\<rparr>)"
  by (simp add: machine_defs payload_defs pricingPlanSchema_spec_def)

text \<open>
  C2. The claim: the plans of the fetched payload are validated, and when that fails the
  payload is stored and \<^verbatim>\<open>couponToApply\<close> stays as it was. What the code does, for
  every plan schema: after a first fetch with an empty list of plans and a regional
  coupon, and \<^verbatim>\<open>APPLY_PPP_COUPON\<close>, the context holds valid data and the coupon
  \<^verbatim>\<open>{PPP1, ppp}\<close>; a payload whose \<^verbatim>\<open>plans\<close> is no list then does not fit the schema,
  yet the validation, which reads the context, succeeds, no plan matches \<^verbatim>\<open>priceId\<close>,
  and the coupon is cleared.
\<close>

theorem C2_malformed_payload_clears_coupon:
  "fst (run sch (loadingPrices, initialContext)
          [DONE_fetchPricingDataService payload_ppp_empty_plans, APPLY_PPP_COUPON])
   = (loadingPrices,
      \<lparr>pricingData = payload_ppp_empty_plans, priceId = None, quantity = 1,
       couponToApply = Some \<lparr>couponCode = JStr ''PPP1'', couponType = PPP\<rparr>\<rparr>)
   \<and> safeParsePlans sch payload_plans_malformed = None
   \<and> run sch (loadingPrices, initialContext)
        [DONE_fetchPricingDataService payload_ppp_empty_plans, APPLY_PPP_COUPON,
         DONE_fetchPricingDataService payload_plans_malformed]
      = ((withoutCoupon,
          \<lparr>pricingData = payload_plans_malformed, priceId = None, quantity = 1,
           couponToApply = None\<rparr>),
         [FetchPricingData 1 (JStr ''PPP1'')])"
  by (simp add: machine_defs payload_defs)

text \<open>
  C4. The claim: when the plan of the fetched payload that matches \<^verbatim>\<open>priceId\<close> has no
  discounted price, \<^verbatim>\<open>couponToApply\<close> is undefined after the fetch. What the code does,
  for every plan schema: after a first payload without \<^verbatim>\<open>plans\<close> but with a regional
  coupon, the selection of plan \<^verbatim>\<open>p1\<close> and \<^verbatim>\<open>APPLY_PPP_COUPON\<close>, a payload whose
  plan \<^verbatim>\<open>p1\<close> has no discounted price leaves the coupon \<^verbatim>\<open>{PPP1, ppp}\<close> in place and
  the machine in \<^verbatim>\<open>withPPPCoupon\<close>, because the plan is looked up in the data of the
  context and not in the payload.
\<close>

theorem C4_undiscounted_plan_keeps_coupon:
  "run sch (loadingPrices, initialContext)
     [DONE_fetchPricingDataService payload_no_plans, SWITCH_PRICE ''p1'', APPLY_PPP_COUPON,
      DONE_fetchPricingDataService payload_ppp_applied_undiscounted]
   = ((withPPPCoupon,
       \<lparr>pricingData = payload_ppp_applied_undiscounted, priceId = Some ''p1'', quantity = 1,
        couponToApply = Some \<lparr>couponCode = JStr ''PPP1'', couponType = PPP\<rparr>\<rparr>),
      [FetchPricingData 1 (JStr ''PPP1'')])
   \<and> readProp plan_p1_undiscounted ''price_discounted'' = JUndefined
   \<and> pricingPlanSchema_spec plan_p1_undiscounted
       = Some \<lparr>stripe_price_id = JStr ''p1'', price_discounted = JUndefined\<rparr>"
  by (simp add: machine_defs payload_defs pricingPlanSchema_spec_def)

section \<open>The inference of the default coupon\<close>



section \<open>No plan for the current price\<close>

text \<open>
  What the code does when the data it validates, those of the context, are valid and
  hold no plan for the current \<^verbatim>\<open>priceId\<close>: the coupon is cleared.
\<close>

lemma stored_plans_unmatched_clears_coupon:
  assumes "safeParsePlans sch (pricingData c) = Some plans"
      and "find (\<lambda>plan. strictEq (stripe_price_id plan) (priceIdValue (priceId c))) plans = None"
  shows "transition sch (loadingPrices, c) (DONE_fetchPricingDataService d)
         = ((withoutCoupon, c\<lparr>pricingData := d, couponToApply := None\<rparr>), [])"
  using assms
  by (simp add: transition_done assignPricingData_no_plan assign_def checkingCouponStatus_def
      pricingIncludesPPPCoupon_def pricingIncludesDefaultCoupon_def)

text \<open>
  C9. The claim: on a successful fetch whose plans are valid and of which none has an
  identifier equal to the current \<^verbatim>\<open>priceId\<close> (here undefined: no plan was ever
  selected), \<^verbatim>\<open>couponToApply\<close> is undefined afterwards. What the code does, for every
  plan schema: after a first payload without \<^verbatim>\<open>plans\<close> but with a regional coupon, and
  \<^verbatim>\<open>APPLY_PPP_COUPON\<close>, a payload with valid plans, none of them matching, leaves the
  coupon \<^verbatim>\<open>{PPP1, ppp}\<close> in place and the machine in \<^verbatim>\<open>withPPPCoupon\<close>, because
  the plans that are validated are those of the context. The same with a payload whose
  list of plans is empty, which fits every schema.
\<close>

theorem C9_unmatched_fetched_plans_keep_coupon:
  "run sch (loadingPrices, initialContext)
     [DONE_fetchPricingDataService payload_no_plans, APPLY_PPP_COUPON,
      DONE_fetchPricingDataService payload_ppp_available]
   = ((withPPPCoupon,
       \<lparr>pricingData = payload_ppp_available, priceId = None, quantity = 1,
        couponToApply = Some \<lparr>couponCode = JStr ''PPP1'', couponType = PPP\<rparr>\<rparr>),
      [FetchPricingData 1 (JStr ''PPP1'')])
   \<and> safeParsePlans pricingPlanSchema_spec payload_ppp_available
       = Some [\<lparr>stripe_price_id = JStr ''p1'', price_discounted = JNum 10\<rparr>]
   \<and> find (\<lambda>plan. strictEq (stripe_price_id plan) (priceIdValue None))
        [\<lparr>stripe_price_id = JStr ''p1'', price_discounted = JNum 10\<rparr>] = None
   \<and> run sch (loadingPrices, initialContext)
        [DONE_fetchPricingDataService payload_no_plans, APPLY_PPP_COUPON,
         DONE_fetchPricingDataService payload_ppp_empty_plans]
      = ((withPPPCoupon,
          \<lparr>pricingData = payload_ppp_empty_plans, priceId = None, quantity = 1,
           couponToApply = Some \<lparr>couponCode = JStr ''PPP1'', couponType = PPP\<rparr>\<rparr>),
         [FetchPricingData 1 (JStr ''PPP1'')])
   \<and> safeParsePlans sch payload_ppp_empty_plans = Some []"
  by (simp add: machine_defs payload_defs pricingPlanSchema_spec_def)

section \<open>The regional coupon\<close>

text \<open>
  C7. In \<^verbatim>\<open>withDefaultCoupon\<close> or \<^verbatim>\<open>withoutCoupon\<close>, \<^verbatim>\<open>APPLY_PPP_COUPON\<close> with a
  string at \<^verbatim>\<open>pricingData.available_coupons.ppp.coupon_code\<close> sets \<^verbatim>\<open>couponToApply\<close>
  to that code with type \<^verbatim>\<open>ppp\<close> and goes to \<^verbatim>\<open>loadingPrices\<close>, asking for exactly
  one fetch, with that code. In every other case (the data, \<^verbatim>\<open>available_coupons\<close> or
  \<^verbatim>\<open>ppp\<close> is absent, \<^verbatim>\<open>null\<close> or no object, or \<^verbatim>\<open>ppp\<close> has no string
  \<^verbatim>\<open>coupon_code\<close>) \<^verbatim>\<open>couponToApply\<close> is undefined afterwards, the machine goes to
  \<^verbatim>\<open>loadingPrices\<close> all the same, with one fetch without a code, and nothing is raised.
\<close>

theorem C7_apply_ppp_coupon:
  assumes "s = withDefaultCoupon \<or> s = withoutCoupon"
  shows "(readProp (findAvailablePPPCoupon (pricingData c)) ''coupon_code'' = JStr code \<longrightarrow>
            transition sch (s, c) APPLY_PPP_COUPON
            = ((loadingPrices,
                c\<lparr>couponToApply := Some \<lparr>couponCode = JStr code, couponType = PPP\<rparr>\<rparr>),
               [FetchPricingData (quantity c) (JStr code)]))
       \<and> ((\<nexists>code'. readProp (findAvailablePPPCoupon (pricingData c)) ''coupon_code''
                       = JStr code') \<longrightarrow>
            transition sch (s, c) APPLY_PPP_COUPON
            = ((loadingPrices, c\<lparr>couponToApply := None\<rparr>),
               [FetchPricingData (quantity c) JUndefined]))"
proof (intro conjI impI)
  assume "readProp (findAvailablePPPCoupon (pricingData c)) ''coupon_code'' = JStr code"
  then show "transition sch (s, c) APPLY_PPP_COUPON
            = ((loadingPrices,
                c\<lparr>couponToApply := Some \<lparr>couponCode = JStr code, couponType = PPP\<rparr>\<rparr>),
               [FetchPricingData (quantity c) (JStr code)])"
    by (simp add: transition_apply[OF assms] pppCouponSchema_code)
next
  assume "\<nexists>code'. readProp (findAvailablePPPCoupon (pricingData c)) ''coupon_code'' = JStr code'"
  then have "pppCouponSchema (pricingData c) = None"
    by (rule pppCouponSchema_none)
  then show "transition sch (s, c) APPLY_PPP_COUPON
            = ((loadingPrices, c\<lparr>couponToApply := None\<rparr>),
               [FetchPricingData (quantity c) JUndefined])"
    by (simp add: transition_apply[OF assms])
qed

text \<open>
  The theorem in \<^verbatim>\<open>withoutCoupon\<close> with the regional coupon \<^verbatim>\<open>PPP1\<close> in the data; in
  \<^verbatim>\<open>withDefaultCoupon\<close> with data that list no regional coupon; and in
  \<^verbatim>\<open>withoutCoupon\<close> with a regional coupon that is \<^verbatim>\<open>null\<close>, and one that is an
  object without a code.
\<close>

theorem C7_witness:
  "transition pricingPlanSchema_spec
      (withoutCoupon, initialContext\<lparr>pricingData := payload_ppp_available\<rparr>) APPLY_PPP_COUPON
    = ((loadingPrices, context_ppp_applied), [FetchPricingData 1 (JStr ''PPP1'')])
   \<and> findAvailablePPPCoupon (pricingData context_default_inferred) = JUndefined
   \<and> transition pricingPlanSchema_spec (withDefaultCoupon, context_default_inferred)
        APPLY_PPP_COUPON
    = ((loadingPrices, context_default_inferred\<lparr>couponToApply := None\<rparr>),
       [FetchPricingData 1 JUndefined])
   \<and> findAvailablePPPCoupon payload_ppp_null = JNull
   \<and> transition pricingPlanSchema_spec
        (withoutCoupon, initialContext\<lparr>pricingData := payload_ppp_null\<rparr>) APPLY_PPP_COUPON
    = ((loadingPrices, initialContext\<lparr>pricingData := payload_ppp_null\<rparr>),
       [FetchPricingData 1 JUndefined])
   \<and> findAvailablePPPCoupon payload_ppp_without_code = JObj []
   \<and> transition pricingPlanSchema_spec
        (withoutCoupon, initialContext\<lparr>pricingData := payload_ppp_without_code\<rparr>)
        APPLY_PPP_COUPON
    = ((loadingPrices, initialContext\<lparr>pricingData := payload_ppp_without_code\<rparr>),
       [FetchPricingData 1 JUndefined])"
proof -
  have h1: "readProp (findAvailablePPPCoupon
              (pricingData (initialContext\<lparr>pricingData := payload_ppp_available\<rparr>))) ''coupon_code''
            = JStr ''PPP1''"
    by (simp add: findAvailablePPPCoupon_def payload_defs)
  have h2: "findAvailablePPPCoupon (pricingData context_default_inferred) = JUndefined"
    by (simp add: findAvailablePPPCoupon_def payload_defs context_defs)
  have h3: "findAvailablePPPCoupon payload_ppp_null = JNull"
    by (simp add: findAvailablePPPCoupon_def payload_defs)
  have h4: "findAvailablePPPCoupon payload_ppp_without_code = JObj []"
    by (simp add: findAvailablePPPCoupon_def payload_defs)
  have n2: "\<nexists>code'. readProp (findAvailablePPPCoupon (pricingData context_default_inferred))
                        ''coupon_code'' = JStr code'"
    using h2 by simp
  have n3: "\<nexists>code'. readProp (findAvailablePPPCoupon
              (pricingData (initialContext\<lparr>pricingData := payload_ppp_null\<rparr>))) ''coupon_code''
             = JStr code'"
    using h3 by simp
  have n4: "\<nexists>code'. readProp (findAvailablePPPCoupon
              (pricingData (initialContext\<lparr>pricingData := payload_ppp_without_code\<rparr>)))
              ''coupon_code'' = JStr code'"
    using h4 by simp
  from C7_apply_ppp_coupon[of withoutCoupon "initialContext\<lparr>pricingData := payload_ppp_available\<rparr>"
         "''PPP1''" pricingPlanSchema_spec] h1
       C7_apply_ppp_coupon[of withDefaultCoupon context_default_inferred _ pricingPlanSchema_spec] n2
       C7_apply_ppp_coupon[of withoutCoupon "initialContext\<lparr>pricingData := payload_ppp_null\<rparr>" _
         pricingPlanSchema_spec] n3
       C7_apply_ppp_coupon[of withoutCoupon
         "initialContext\<lparr>pricingData := payload_ppp_without_code\<rparr>" _ pricingPlanSchema_spec] n4
       h2 h3 h4
  show ?thesis by (simp add: context_defs initialContext_def)
qed

text \<open>
  C10. In \<^verbatim>\<open>withDefaultCoupon\<close>, where \<^verbatim>\<open>couponToApply\<close> holds a coupon of type
  \<^verbatim>\<open>default\<close>, \<^verbatim>\<open>APPLY_PPP_COUPON\<close> on data without a structurally valid
  \<^verbatim>\<open>available_coupons.ppp\<close> record (an object with a string \<^verbatim>\<open>coupon_code\<close>) assigns
  undefined to \<^verbatim>\<open>couponToApply\<close>: the default coupon is discarded, and the machine
  goes to \<^verbatim>\<open>loadingPrices\<close> and fetches, without a coupon code.
\<close>

theorem C10_apply_without_ppp_discards_default:
  assumes "pricingIncludesDefaultCoupon c"
      and "\<nexists>kvs code. findAvailablePPPCoupon (pricingData c) = JObj kvs
                      \<and> readProp (JObj kvs) ''coupon_code'' = JStr code"
  shows "transition sch (withDefaultCoupon, c) APPLY_PPP_COUPON
           = ((loadingPrices, c\<lparr>couponToApply := None\<rparr>),
              [FetchPricingData (quantity c) JUndefined])
         \<and> couponToApply (c\<lparr>couponToApply := None\<rparr>) \<noteq> couponToApply c"
proof -
  have "\<nexists>code. readProp (findAvailablePPPCoupon (pricingData c)) ''coupon_code'' = JStr code"
  proof
    assume "\<exists>code. readProp (findAvailablePPPCoupon (pricingData c)) ''coupon_code'' = JStr code"
    then obtain code where
      h: "readProp (findAvailablePPPCoupon (pricingData c)) ''coupon_code'' = JStr code" ..
    then obtain kvs where "findAvailablePPPCoupon (pricingData c) = JObj kvs"
      by (cases "findAvailablePPPCoupon (pricingData c)") simp_all
    with h assms(2) show False by auto
  qed
  then have "pppCouponSchema (pricingData c) = None"
    by (rule pppCouponSchema_none)
  moreover from assms(1) have "couponToApply c \<noteq> None"
    by (auto simp add: pricingIncludesDefaultCoupon_def split: option.splits)
  ultimately show ?thesis
    by (auto simp add: transition_apply)
qed

text \<open>The theorem at a context with the inferred default coupon \<^verbatim>\<open>D1\<close>.\<close>

theorem C10_witness:
  "pricingIncludesDefaultCoupon context_default_inferred
   \<and> findAvailablePPPCoupon (pricingData context_default_inferred) = JUndefined
   \<and> transition pricingPlanSchema_spec (withDefaultCoupon, context_default_inferred)
        APPLY_PPP_COUPON
      = ((loadingPrices, context_default_inferred\<lparr>couponToApply := None\<rparr>),
         [FetchPricingData 1 JUndefined])
   \<and> couponToApply context_default_inferred
      = Some \<lparr>couponCode = JStr ''D1'', couponType = DEFAULT\<rparr>"
proof -
  have h1: "pricingIncludesDefaultCoupon context_default_inferred"
    by (simp add: pricingIncludesDefaultCoupon_def context_defs)
  have h2: "findAvailablePPPCoupon (pricingData context_default_inferred) = JUndefined"
    by (simp add: findAvailablePPPCoupon_def payload_defs context_defs)
  then have h3: "\<nexists>kvs code. findAvailablePPPCoupon (pricingData context_default_inferred) = JObj kvs
                      \<and> readProp (JObj kvs) ''coupon_code'' = JStr code"
    by simp
  from C10_apply_without_ppp_discards_default[OF h1 h3, of pricingPlanSchema_spec] h1 h2
  show ?thesis by (simp add: context_defs)
qed

text \<open>
  C8. In \<^verbatim>\<open>withPPPCoupon\<close>, \<^verbatim>\<open>REMOVE_PPP_COUPON\<close> sets \<^verbatim>\<open>couponToApply\<close> to
  undefined, whatever the context, and goes to \<^verbatim>\<open>loadingPrices\<close>, fetching without a
  coupon code. The next successful fetch does not end in \<^verbatim>\<open>withPPPCoupon\<close>: a coupon
  that \<^verbatim>\<open>assignPricingData\<close> assigns has type \<^verbatim>\<open>default\<close>, and no sequence of events
  without \<^verbatim>\<open>APPLY_PPP_COUPON\<close> brings the machine back to \<^verbatim>\<open>withPPPCoupon\<close>.
\<close>

theorem C8_remove_ppp_coupon:
  "transition sch (withPPPCoupon, c) REMOVE_PPP_COUPON
     = ((loadingPrices, c\<lparr>couponToApply := None\<rparr>), [FetchPricingData (quantity c) JUndefined])
   \<and> fst (fst (transition sch (loadingPrices, c\<lparr>couponToApply := None\<rparr>)
                  (DONE_fetchPricingDataService d))) \<noteq> withPPPCoupon
   \<and> (upd_couponToApply (assignPricingData sch c' e) = Present (Some r) \<longrightarrow> couponType r = DEFAULT)
   \<and> (APPLY_PPP_COUPON \<notin> set es \<longrightarrow>
        fst (fst (run sch (loadingPrices, c\<lparr>couponToApply := None\<rparr>) es)) \<noteq> withPPPCoupon)"
proof (intro conjI impI)
  show "transition sch (withPPPCoupon, c) REMOVE_PPP_COUPON
     = ((loadingPrices, c\<lparr>couponToApply := None\<rparr>), [FetchPricingData (quantity c) JUndefined])"
    by (simp add: transition_def removePPPCoupon_def fetchPricingData_def)
next
  have "\<not> pricingIncludesPPPCoupon (c\<lparr>couponToApply := None\<rparr>)"
    by (simp add: pricingIncludesPPPCoupon_def)
  from no_ppp_step[OF this, of loadingPrices "DONE_fetchPricingDataService d" sch]
  show "fst (fst (transition sch (loadingPrices, c\<lparr>couponToApply := None\<rparr>)
                  (DONE_fetchPricingDataService d))) \<noteq> withPPPCoupon"
    by simp
next
  assume "upd_couponToApply (assignPricingData sch c' e) = Present (Some r)"
  with assignPricingData_coupon_cases[of sch c' e] show "couponType r = DEFAULT"
    by auto
next
  assume a: "APPLY_PPP_COUPON \<notin> set es"
  have "\<not> pricingIncludesPPPCoupon (c\<lparr>couponToApply := None\<rparr>)"
    by (simp add: pricingIncludesPPPCoupon_def)
  from no_ppp_run[OF this _ a, of loadingPrices sch]
  show "fst (fst (run sch (loadingPrices, c\<lparr>couponToApply := None\<rparr>) es)) \<noteq> withPPPCoupon"
    by simp
qed

text \<open>
  The theorem at the context with the applied coupon \<^verbatim>\<open>PPP1\<close>, followed by a quantity
  change, the end of its delay and a fetch that lists the regional coupon again; the
  coupon key that \<^verbatim>\<open>assignPricingData\<close> gives for that context is undefined.
\<close>

theorem C8_witness:
  "transition pricingPlanSchema_spec (withPPPCoupon, context_ppp_applied) REMOVE_PPP_COUPON
     = ((loadingPrices, context_ppp_applied\<lparr>couponToApply := None\<rparr>),
        [FetchPricingData 1 JUndefined])
   \<and> fst (fst (transition pricingPlanSchema_spec
                  (loadingPrices, context_ppp_applied\<lparr>couponToApply := None\<rparr>)
                  (DONE_fetchPricingDataService payload_ppp_available))) = withoutCoupon
   \<and> upd_couponToApply (assignPricingData pricingPlanSchema_spec context_ppp_applied
        (DONE_fetchPricingDataService payload_default_applied))
      = Present None
   \<and> APPLY_PPP_COUPON \<notin> set [CHANGE_QUANTITY 2, AFTER_500,
                                DONE_fetchPricingDataService payload_ppp_available]
   \<and> fst (fst (run pricingPlanSchema_spec
                  (loadingPrices, context_ppp_applied\<lparr>couponToApply := None\<rparr>)
                  [CHANGE_QUANTITY 2, AFTER_500,
                   DONE_fetchPricingDataService payload_ppp_available])) \<noteq> withPPPCoupon"
proof -
  have h1: "upd_couponToApply (assignPricingData pricingPlanSchema_spec context_ppp_applied
        (DONE_fetchPricingDataService payload_default_applied))
      = Present None"
    by (simp add: machine_defs pricingPlanSchema_spec_def context_defs payload_defs)
  have h2: "APPLY_PPP_COUPON \<notin> set [CHANGE_QUANTITY 2, AFTER_500,
                                DONE_fetchPricingDataService payload_ppp_available]"
    by simp
  have h3: "fst (fst (transition pricingPlanSchema_spec
                  (loadingPrices, context_ppp_applied\<lparr>couponToApply := None\<rparr>)
                  (DONE_fetchPricingDataService payload_ppp_available))) = withoutCoupon"
    by (simp add: machine_defs pricingPlanSchema_spec_def context_defs payload_defs)
  from C8_remove_ppp_coupon[of pricingPlanSchema_spec context_ppp_applied payload_ppp_available
         context_ppp_applied "DONE_fetchPricingDataService payload_default_applied" _
         "[CHANGE_QUANTITY 2, AFTER_500, DONE_fetchPricingDataService payload_ppp_available]"]
       h1 h2 h3
  show ?thesis by (simp add: context_defs)
qed

section \<open>The failed fetch\<close>

text \<open>
  C5. A rejection of the fetch in \<^verbatim>\<open>loadingPrices\<close> takes the machine to
  \<^verbatim>\<open>pricingFetchFailed\<close>; from there every event (a quantity change, the two coupon
  events, a plan switch, a checkout confirmation and any other) and every sequence of
  events leaves state and context as they are and asks for no effect, so no fetch is
  retried.
\<close>

theorem C5_fetch_failure_is_terminal:
  "transition sch (loadingPrices, c) ERROR_fetchPricingDataService
     = ((pricingFetchFailed, c), [])
   \<and> transition sch (pricingFetchFailed, c) e = ((pricingFetchFailed, c), [])
   \<and> transition sch (pricingFetchFailed, c) (CHANGE_QUANTITY q) = ((pricingFetchFailed, c), [])
   \<and> transition sch (pricingFetchFailed, c) APPLY_PPP_COUPON = ((pricingFetchFailed, c), [])
   \<and> transition sch (pricingFetchFailed, c) REMOVE_PPP_COUPON = ((pricingFetchFailed, c), [])
   \<and> transition sch (pricingFetchFailed, c) (SWITCH_PRICE p) = ((pricingFetchFailed, c), [])
   \<and> transition sch (pricingFetchFailed, c) CONFIRM_PRICE = ((pricingFetchFailed, c), [])
   \<and> run sch (pricingFetchFailed, c) es = ((pricingFetchFailed, c), [])"
  by (simp add: run_final transition_final) (simp add: transition_def)

section \<open>Quantity changes and their delay\<close>

text \<open>
  C6, as the code has it. A quantity change received in a state other than
  \<^verbatim>\<open>pricingFetchFailed\<close> takes the machine to \<^verbatim>\<open>debouncingQuantityChange\<close> and sets
  \<^verbatim>\<open>context.quantity\<close> to the event's value at once. For a burst of quantity changes
  that begins in such a state, each less than 500 ms after the one before: after the
  burst the machine debounces with the last quantity; no fetch is asked for during the
  burst; none before 500 ms have passed since the last event; and once they have passed
  the machine is in \<^verbatim>\<open>loadingPrices\<close> and has asked for exactly one fetch since the
  burst began, at 500 ms after the last event, with the last quantity.
\<close>

theorem C6_quantity_change_debounced:
  fixes m :: timedMachine and t :: nat and q :: int and rest burst :: "(nat \<times> int) list"
  assumes "fst (config m) \<noteq> pricingFetchFailed" and "within500 t rest"
  defines "burst \<equiv> (t, q) # rest"
  shows "transition sch (config m) (CHANGE_QUANTITY q)
           = ((debouncingQuantityChange, (snd (config m))\<lparr>quantity := q\<rparr>),
              (if fst (config m) = debouncingQuantityChange then [CancelDelay] else [])
              @ [StartDelay 500])
       \<and> config (sendQuantities sch burst m)
           = (debouncingQuantityChange, (snd (config m))\<lparr>quantity := snd (last burst)\<rparr>)
       \<and> fetchesOf (issued (sendQuantities sch burst m)) = fetchesOf (issued (elapse sch t m))
       \<and> (now < fst (last burst) + 500 \<longrightarrow>
            elapse sch now (sendQuantities sch burst m) = sendQuantities sch burst m)
       \<and> (fst (last burst) + 500 \<le> now \<longrightarrow>
            config (elapse sch now (sendQuantities sch burst m))
              = (loadingPrices, (snd (config m))\<lparr>quantity := snd (last burst)\<rparr>)
          \<and> fetchesOf (issued (elapse sch now (sendQuantities sch burst m)))
              = fetchesOf (issued (elapse sch t m))
                @ [(fst (last burst) + 500,
                    FetchPricingData (snd (last burst))
                      (case couponToApply (snd (config m)) of
                         None \<Rightarrow> JUndefined
                       | Some r \<Rightarrow> couponCode r))])"
proof -
  let ?m1 = "send sch t (CHANGE_QUANTITY q) m"
  let ?c = "snd (config m)"
  let ?mn = "sendQuantities sch burst m"
  have c1: "config ?m1 = (debouncingQuantityChange, ?c\<lparr>quantity := q\<rparr>)"
    and d1: "due ?m1 = Some (t + 500)"
    and f1: "fetchesOf (issued ?m1) = fetchesOf (issued (elapse sch t m))"
    using send_change_quantity[OF assms(1)] by simp_all
  from burst_in_debounce[OF c1 d1 assms(2)]
  have cn: "config ?mn = (debouncingQuantityChange, ?c\<lparr>quantity := snd (last burst)\<rparr>)"
    and dn: "due ?mn = Some (fst (last burst) + 500)"
    and fn: "fetchesOf (issued ?mn) = fetchesOf (issued (elapse sch t m))"
    using f1 by (simp_all add: burst_def)
  have step: "transition sch (config m) (CHANGE_QUANTITY q)
           = ((debouncingQuantityChange, ?c\<lparr>quantity := q\<rparr>),
              (if fst (config m) = debouncingQuantityChange then [CancelDelay] else [])
              @ [StartDelay 500])"
    using transition_change_quantity[OF assms(1), of sch ?c q] by simp
  have early: "now < fst (last burst) + 500 \<longrightarrow> elapse sch now ?mn = ?mn"
    using dn by (simp add: elapse_before_due)
  have late: "fst (last burst) + 500 \<le> now \<longrightarrow>
            config (elapse sch now ?mn) = (loadingPrices, ?c\<lparr>quantity := snd (last burst)\<rparr>)
          \<and> fetchesOf (issued (elapse sch now ?mn))
              = fetchesOf (issued (elapse sch t m))
                @ [(fst (last burst) + 500,
                    FetchPricingData (snd (last burst))
                      (case couponToApply ?c of None \<Rightarrow> JUndefined | Some r \<Rightarrow> couponCode r))]"
    using cn dn fn
    by (simp add: elapse_def deliver_def transition_after fetchesOf_def isFetch_simps
        fetchPricingData_def)
  from step cn fn early late show ?thesis by blast
qed

text \<open>
  The theorem at a burst of three quantity changes at 1000, 1200 and 1600 ms: nothing is
  fetched up to 2099 ms, and at 2100 ms one fetch is asked for, with the quantity 5.
\<close>

theorem C6_witness:
  "fst (config machine_idle) \<noteq> pricingFetchFailed
   \<and> within500 1000 [(1200, 3), (1600, 5)]
   \<and> config (sendQuantities pricingPlanSchema_spec [(1000, 2), (1200, 3), (1600, 5)] machine_idle)
      = (debouncingQuantityChange, initialContext\<lparr>quantity := 5\<rparr>)
   \<and> fetchesOf (issued (sendQuantities pricingPlanSchema_spec
                          [(1000, 2), (1200, 3), (1600, 5)] machine_idle)) = []
   \<and> elapse pricingPlanSchema_spec 2099
        (sendQuantities pricingPlanSchema_spec [(1000, 2), (1200, 3), (1600, 5)] machine_idle)
      = sendQuantities pricingPlanSchema_spec [(1000, 2), (1200, 3), (1600, 5)] machine_idle
   \<and> config (elapse pricingPlanSchema_spec 2100
        (sendQuantities pricingPlanSchema_spec [(1000, 2), (1200, 3), (1600, 5)] machine_idle))
      = (loadingPrices, initialContext\<lparr>quantity := 5\<rparr>)
   \<and> fetchesOf (issued (elapse pricingPlanSchema_spec 2100
        (sendQuantities pricingPlanSchema_spec [(1000, 2), (1200, 3), (1600, 5)] machine_idle)))
      = [(2100, FetchPricingData 5 JUndefined)]"
proof -
  have h1: "fst (config machine_idle) \<noteq> pricingFetchFailed"
    by (simp add: machine_idle_def)
  have h2: "within500 1000 [(1200, 3), (1600, 5)]" by simp
  have e: "fetchesOf (issued (elapse pricingPlanSchema_spec 1000 machine_idle)) = []"
    by (simp add: elapse_def machine_idle_def fetchesOf_def)
  from C6_quantity_change_debounced[OF h1 h2, of pricingPlanSchema_spec 2 2099]
       C6_quantity_change_debounced[OF h1 h2, of pricingPlanSchema_spec 2 2100]
       h1 h2 e
  show ?thesis by (simp add: machine_idle_def initialContext_def)
qed

text \<open>
  C6 as it is written fails in \<^verbatim>\<open>pricingFetchFailed\<close>: after a rejected fetch, a
  quantity change leaves the machine in that state, with the quantity of before and no
  delay started.
\<close>

theorem C6_counterexample:
  "run pricingPlanSchema_spec (loadingPrices, initialContext)
     [ERROR_fetchPricingDataService, CHANGE_QUANTITY 2]
   = ((pricingFetchFailed, initialContext), [])
   \<and> fst (fst (transition pricingPlanSchema_spec (pricingFetchFailed, initialContext)
                  (CHANGE_QUANTITY 2))) \<noteq> debouncingQuantityChange
   \<and> quantity (snd (fst (transition pricingPlanSchema_spec (pricingFetchFailed, initialContext)
                  (CHANGE_QUANTITY 2)))) \<noteq> 2"
  by (simp add: transition_def initialContext_def)

end
